theory Spec2Isabelle
  imports Complex_Main "HOL-Library.Word"
begin

section \<open>Tensor elements\<close>

text \<open>
  The tensors of \<^verbatim>\<open>pycave/bayes/output.py\<close> hold IEEE floating-point numbers. An element is
  modelled as a finite real or one of the three special values. Finite arithmetic is exact:
  rounding, overflow to infinity and the sign of zero are not modelled. Division by zero and
  the propagation of NaN and of the infinities follow IEEE 754. A statement that adds more
  than two numbers carries a bound on their magnitudes wherever the order of the additions
  could otherwise decide between a finite sum and an overflow.
\<close>

datatype fl = Fin real | PInf | NInf | NaN

fun fadd :: "fl \<Rightarrow> fl \<Rightarrow> fl" where
  "fadd (Fin a) (Fin b) = Fin (a + b)"
| "fadd (Fin a) PInf = PInf"
| "fadd (Fin a) NInf = NInf"
| "fadd (Fin a) NaN = NaN"
| "fadd PInf (Fin b) = PInf"
| "fadd PInf PInf = PInf"
| "fadd PInf NInf = NaN"
| "fadd PInf NaN = NaN"
| "fadd NInf (Fin b) = NInf"
| "fadd NInf PInf = NaN"
| "fadd NInf NInf = NInf"
| "fadd NInf NaN = NaN"
| "fadd NaN b = NaN"

fun fmul :: "fl \<Rightarrow> fl \<Rightarrow> fl" where
  "fmul (Fin a) (Fin b) = Fin (a * b)"
| "fmul (Fin a) PInf = (if a = 0 then NaN else if 0 < a then PInf else NInf)"
| "fmul (Fin a) NInf = (if a = 0 then NaN else if 0 < a then NInf else PInf)"
| "fmul PInf (Fin b) = (if b = 0 then NaN else if 0 < b then PInf else NInf)"
| "fmul NInf (Fin b) = (if b = 0 then NaN else if 0 < b then NInf else PInf)"
| "fmul PInf PInf = PInf"
| "fmul PInf NInf = NInf"
| "fmul NInf PInf = NInf"
| "fmul NInf NInf = PInf"
| "fmul NaN b = NaN"
| "fmul a NaN = NaN"

text \<open>
  Division: a finite non-zero number over zero is an infinity, zero over zero is NaN, a
  finite number over an infinity is zero, an infinity over an infinity is NaN.
\<close>

fun fdiv :: "fl \<Rightarrow> fl \<Rightarrow> fl" where
  "fdiv (Fin a) (Fin b) =
     (if b = 0 then (if a = 0 then NaN else if 0 < a then PInf else NInf) else Fin (a / b))"
| "fdiv (Fin a) PInf = Fin 0"
| "fdiv (Fin a) NInf = Fin 0"
| "fdiv PInf (Fin b) = (if 0 \<le> b then PInf else NInf)"
| "fdiv NInf (Fin b) = (if 0 \<le> b then NInf else PInf)"
| "fdiv PInf PInf = NaN"
| "fdiv PInf NInf = NaN"
| "fdiv NInf PInf = NaN"
| "fdiv NInf NInf = NaN"
| "fdiv NaN b = NaN"
| "fdiv a NaN = NaN"

fun is_finite :: "fl \<Rightarrow> bool" where
  "is_finite (Fin a) = True"
| "is_finite PInf = False"
| "is_finite NInf = False"
| "is_finite NaN = False"

instantiation fl :: comm_monoid_add
begin

definition zero_fl :: fl where
  "zero_fl = Fin 0"

definition plus_fl :: "fl \<Rightarrow> fl \<Rightarrow> fl" where
  "plus_fl a b = fadd a b"

instance
proof
  fix a b c :: fl
  show "a + b + c = a + (b + c)"
    unfolding plus_fl_def by (cases a; cases b; cases c) simp_all
  show "a + b = b + a"
    unfolding plus_fl_def by (cases a; cases b) simp_all
  show "0 + a = a"
    unfolding plus_fl_def zero_fl_def by (cases a) simp_all
qed

end

section \<open>Tensors and errors\<close>

text \<open>
  A two-dimensional tensor is the list of its rows together with its number of columns, so
  that a tensor without rows still has a shape. A one-dimensional tensor is a list.
\<close>

datatype tensor2 = Tensor2 (ncols: nat) (trows: "fl list list")

definition nrows :: "tensor2 \<Rightarrow> nat" where
  "nrows t = length (trows t)"

definition wf2 :: "tensor2 \<Rightarrow> bool" where
  "wf2 t = list_all (\<lambda>r. length r = ncols t) (trows t)"

text \<open>A tensor of zero, one or two dimensions, where the number of dimensions varies.\<close>

datatype tensor = T0 fl | T1 "fl list" | T2 tensor2

datatype error = RuntimeError | IndexError | ValueError | AssertionError

section \<open>Tensor operations used by the Discrete head\<close>

text \<open>\<^verbatim>\<open>torch.zeros_like\<close>: the same shape, every element zero.\<close>

definition zeros_like :: "tensor2 \<Rightarrow> tensor2" where
  "zeros_like t = Tensor2 (ncols t) (map (map (\<lambda>_. 0)) (trows t))"

text \<open>\<^verbatim>\<open>gamma.t()\<close>: row j of the result is column j of the argument.\<close>

definition column :: "tensor2 \<Rightarrow> nat \<Rightarrow> fl list" where
  "column t j = map (\<lambda>r. r ! j) (trows t)"

definition transpose2 :: "tensor2 \<Rightarrow> tensor2" where
  "transpose2 t = Tensor2 (nrows t) (map (column t) [0..<ncols t])"

text \<open>\<^verbatim>\<open>gamma.sum(0)\<close>: one sum per column.\<close>

definition sum0 :: "tensor2 \<Rightarrow> fl list" where
  "sum0 t = map (\<lambda>j. sum_list (column t j)) [0..<ncols t]"

text \<open>
  An index tensor (\<^verbatim>\<open>torch.long\<close>) with two dimensions.
  \<^verbatim>\<open>sequences.view(1, -1).expand(num_states, -1)\<close> repeats the flattened symbol vector once
  per state.
\<close>

datatype itensor2 = ITensor2 (icols: nat) (irows: "int list list")

definition view_expand :: "nat \<Rightarrow> int list \<Rightarrow> itensor2" where
  "view_expand k sequences = ITensor2 (length sequences) (replicate k sequences)"

text \<open>
  \<^verbatim>\<open>self.scatter_add_(1, index, src)\<close>: for every position (k, n) of \<^verbatim>\<open>index\<close>, in order,
  \<^verbatim>\<open>self[k][index[k][n]] += src[k][n]\<close>. An index outside \<open>0 \<le> i < self.size(1)\<close> raises. An
  empty index leaves \<^verbatim>\<open>self\<close> as it is; otherwise \<^verbatim>\<open>index\<close> may not be larger than \<^verbatim>\<open>src\<close>
  in any dimension, nor have more rows than \<^verbatim>\<open>self\<close>.
\<close>

fun scatter_row :: "fl list \<Rightarrow> (int \<times> fl) list \<Rightarrow> error + fl list" where
  "scatter_row acc [] = Inr acc"
| "scatter_row acc ((i, g) # rest) =
     (if 0 \<le> i \<and> i < int (length acc)
      then scatter_row (acc[nat i := acc ! nat i + g]) rest
      else Inl RuntimeError)"

fun scatter_rows :: "fl list list \<Rightarrow> int list list \<Rightarrow> fl list list \<Rightarrow> error + fl list list" where
  "scatter_rows selfs [] srcs = Inr selfs"
| "scatter_rows (s # selfs) (i # idx) (g # srcs) =
     (case scatter_row s (zip i g) of
        Inl e \<Rightarrow> Inl e
      | Inr r \<Rightarrow> (case scatter_rows selfs idx srcs of
                   Inl e \<Rightarrow> Inl e
                 | Inr rs \<Rightarrow> Inr (r # rs)))"
| "scatter_rows [] (i # idx) srcs = Inl RuntimeError"
| "scatter_rows (s # selfs) (i # idx) [] = Inl RuntimeError"

definition scatter_add_1 :: "tensor2 \<Rightarrow> itensor2 \<Rightarrow> tensor2 \<Rightarrow> error + tensor2" where
  "scatter_add_1 self index src =
     (if irows index = [] \<or> icols index = 0 then Inr self
      else if length (irows index) \<le> nrows src \<and> icols index \<le> ncols src
              \<and> length (irows index) \<le> nrows self
      then (case scatter_rows (trows self) (irows index) (trows src) of
              Inl e \<Rightarrow> Inl e
            | Inr rs \<Rightarrow> Inr (Tensor2 (ncols self) rs))
      else Inl RuntimeError)"

text \<open>
  \<^verbatim>\<open>num / denom\<close> with \<^verbatim>\<open>num\<close> of shape [K, V] and \<^verbatim>\<open>denom\<close> of shape [M]. Broadcasting
  aligns the trailing dimensions, so \<^verbatim>\<open>denom\<close> is read as one row of M columns: the shapes
  agree when V = M, when V = 1 (the result is K by M) or when M = 1; any other pair raises.
  Element (i, j) of the result is divided by \<^verbatim>\<open>denom[j]\<close>.
\<close>

definition div_broadcast :: "tensor2 \<Rightarrow> fl list \<Rightarrow> error + tensor2" where
  "div_broadcast n d =
     (if ncols n = length d
      then Inr (Tensor2 (ncols n) (map (\<lambda>r. map2 fdiv r d) (trows n)))
      else if ncols n = 1
      then Inr (Tensor2 (length d) (map (\<lambda>r. map (\<lambda>x. fdiv (hd r) x) d) (trows n)))
      else if length d = 1
      then Inr (Tensor2 (ncols n) (map (\<lambda>r. map (\<lambda>x. fdiv x (hd d)) r) (trows n)))
      else Inl RuntimeError)"

text \<open>
  The in-place \<^verbatim>\<open>x += y\<close>: \<^verbatim>\<open>y\<close> is broadcast to the shape of \<^verbatim>\<open>x\<close>, which is possible when
  each dimension of \<^verbatim>\<open>y\<close> equals that of \<^verbatim>\<open>x\<close> or is 1; otherwise it raises.
\<close>

definition iadd_vec :: "fl list \<Rightarrow> fl list \<Rightarrow> error + fl list" where
  "iadd_vec x y =
     (if length y = length x then Inr (map2 (+) x y)
      else if length y = 1 then Inr (map (\<lambda>a. a + hd y) x)
      else Inl RuntimeError)"

definition add_row :: "fl list \<Rightarrow> fl list \<Rightarrow> fl list" where
  "add_row r r' = (if length r' = length r then map2 (+) r r' else map (\<lambda>a. a + hd r') r)"

definition iadd_mat :: "tensor2 \<Rightarrow> tensor2 \<Rightarrow> error + tensor2" where
  "iadd_mat x y =
     (if (nrows y = nrows x \<or> nrows y = 1) \<and> (ncols y = ncols x \<or> ncols y = 1)
      then Inr (Tensor2 (ncols x)
             (if nrows y = nrows x then map2 add_row (trows x) (trows y)
              else map (\<lambda>r. add_row r (hd (trows y))) (trows x)))
      else Inl RuntimeError)"

section \<open>The Discrete output head\<close>

text \<open>
  The state the methods of \<^verbatim>\<open>class Discrete\<close> run in: the head's parameter
  \<^verbatim>\<open>self.probabilities\<close> (K by V) and the tensor objects that statistics dictionaries refer
  to. A dictionary \<^verbatim>\<open>{'num': num, 'denom': denom}\<close> holds references, so two dictionaries
  can share a tensor; the store maps a reference to the tensor's current contents.
\<close>

type_synonym addr = nat

record dstate =
  probabilities :: tensor2
  mats :: "addr \<Rightarrow> tensor2"
  vecs :: "addr \<Rightarrow> fl list"
  next_mat :: addr
  next_vec :: addr

record stats =
  num :: addr
  denom :: addr

definition num_states :: "dstate \<Rightarrow> nat" where
  "num_states s = nrows (probabilities s)"

text \<open>
  \<^verbatim>\<open>Discrete.maximize(sequences, gamma)\<close>: \<^verbatim>\<open>num\<close> and \<^verbatim>\<open>denom\<close> are new tensors.
\<close>

definition Discrete_maximize :: "int list \<Rightarrow> tensor2 \<Rightarrow> dstate \<Rightarrow> (error + stats) \<times> dstate" where
  "Discrete_maximize sequences gamma s =
     (let gamma_t = transpose2 gamma;
          sequences_e = view_expand (num_states s) sequences
      in case scatter_add_1 (zeros_like (probabilities s)) sequences_e gamma_t of
           Inl e \<Rightarrow> (Inl e, s)
         | Inr n \<Rightarrow>
             (Inr \<lparr>num = next_mat s, denom = next_vec s\<rparr>,
              s\<lparr>mats := (mats s)(next_mat s := n),
                vecs := (vecs s)(next_vec s := sum0 gamma),
                next_mat := Suc (next_mat s),
                next_vec := Suc (next_vec s)\<rparr>))"

text \<open>
  \<^verbatim>\<open>Discrete.update(current, previous=None)\<close>: \<^verbatim>\<open>num += previous['num']\<close> and
  \<^verbatim>\<open>denom += previous['denom']\<close> write into the tensors of \<^verbatim>\<open>current\<close>; the returned
  dictionary refers to those same tensors.
\<close>

definition Discrete_update :: "stats \<Rightarrow> stats option \<Rightarrow> dstate \<Rightarrow> (error + stats) \<times> dstate" where
  "Discrete_update current previous s =
     (case previous of
        None \<Rightarrow> (Inr \<lparr>num = num current, denom = denom current\<rparr>, s)
      | Some p \<Rightarrow>
          (case iadd_mat (mats s (num current)) (mats s (num p)) of
             Inl e \<Rightarrow> (Inl e, s)
           | Inr m \<Rightarrow>
               (let s1 = s\<lparr>mats := (mats s)(num current := m)\<rparr>
                in case iadd_vec (vecs s1 (denom current)) (vecs s1 (denom p)) of
                     Inl e \<Rightarrow> (Inl e, s1)
                   | Inr v \<Rightarrow>
                       (Inr \<lparr>num = num current, denom = denom current\<rparr>,
                        s1\<lparr>vecs := (vecs s1)(denom current := v)\<rparr>))))"

text \<open>
  \<^verbatim>\<open>Discrete.apply(update)\<close>:
  \<^verbatim>\<open>self.probabilities.set_(update['num'] / update['denom'])\<close>.
\<close>

definition Discrete_apply :: "stats \<Rightarrow> dstate \<Rightarrow> (error + unit) \<times> dstate" where
  "Discrete_apply update s =
     (case div_broadcast (mats s (num update)) (vecs s (denom update)) of
        Inl e \<Rightarrow> (Inl e, s)
      | Inr t \<Rightarrow> (Inr (), s\<lparr>probabilities := t\<rparr>))"

text \<open>
  Indexing along the first dimension with a tensor of indices (\<^verbatim>\<open>t[data]\<close>): a negative
  index counts from the end, an index outside \<open>- size \<le> i < size\<close> raises, and the result is a
  new tensor holding copies of the selected rows.
\<close>

definition py_index :: "nat \<Rightarrow> int \<Rightarrow> error + nat" where
  "py_index n i =
     (if - int n \<le> i \<and> i < int n then Inr (nat (if i < 0 then i + int n else i))
      else Inl IndexError)"



text \<open>
  A state with no statistics yet, and the uniform two-by-two table, for concrete runs.
\<close>

definition no_mats :: "addr \<Rightarrow> tensor2" where
  "no_mats a = Tensor2 0 []"

definition no_vecs :: "addr \<Rightarrow> fl list" where
  "no_vecs a = []"

definition empty_store :: "tensor2 \<Rightarrow> dstate" where
  "empty_store p = \<lparr>probabilities = p, mats = no_mats, vecs = no_vecs, next_mat = 0, next_vec = 0\<rparr>"

definition uniform22 :: tensor2 where
  "uniform22 = Tensor2 2 [[Fin (1/2), Fin (1/2)], [Fin (1/2), Fin (1/2)]]"

section \<open>The Gaussian output head\<close>

text \<open>
  \<^verbatim>\<open>class Gaussian\<close>: the covariance-structure name, the means (K by D) and the covariance
  parameter, whose number of dimensions depends on the name.
\<close>

record gaussian =
  covariance :: string
  means :: tensor2
  covars :: tensor

text \<open>
  \<^verbatim>\<open>torch.empty\<close> raises for a negative size. The contents of the new tensor are not
  initialised; \<^verbatim>\<open>reset_parameters\<close> overwrites every element before anything reads them, so
  the model starts from zeros.
\<close>

definition empty1 :: "nat \<Rightarrow> fl list" where
  "empty1 n = replicate n 0"

definition empty2 :: "nat \<Rightarrow> nat \<Rightarrow> tensor2" where
  "empty2 k d = Tensor2 d (replicate k (replicate d 0))"

text \<open>
  \<^verbatim>\<open>self.means.normal_()\<close> overwrites every element with a standard-normal draw; the draws
  are an argument, indexed by position. \<^verbatim>\<open>self.covars.fill_(1)\<close> overwrites every element
  with one.
\<close>

definition normal_fill :: "(nat \<Rightarrow> nat \<Rightarrow> real) \<Rightarrow> tensor2 \<Rightarrow> tensor2" where
  "normal_fill noise t =
     Tensor2 (ncols t)
       (map (\<lambda>i. map (\<lambda>j. Fin (noise i j)) [0..<length (trows t ! i)]) [0..<nrows t])"

fun fill :: "fl \<Rightarrow> tensor \<Rightarrow> tensor" where
  "fill v (T0 x) = T0 v"
| "fill v (T1 xs) = T1 (map (\<lambda>_. v) xs)"
| "fill v (T2 t) = T2 (Tensor2 (ncols t) (map (map (\<lambda>_. v)) (trows t)))"

text \<open>
  \<^verbatim>\<open>Gaussian.reset_parameters(data=None)\<close>, the call made by the constructor: the branch
  without data, which returns no labels.
\<close>

definition Gaussian_reset_parameters :: "(nat \<Rightarrow> nat \<Rightarrow> real) \<Rightarrow> gaussian \<Rightarrow> gaussian" where
  "Gaussian_reset_parameters noise h =
     h\<lparr>means := normal_fill noise (means h), covars := fill (Fin 1) (covars h)\<rparr>"

text \<open>
  \<^verbatim>\<open>Gaussian.__init__(num_components, num_features, covariance)\<close>. The sizes are Python
  integers. The covariance name is compared with \<^verbatim>\<open>'diag'\<close> and \<^verbatim>\<open>'spherical'\<close>; every other
  string takes the last branch.
\<close>

definition Gaussian_init ::
  "int \<Rightarrow> int \<Rightarrow> string \<Rightarrow> (nat \<Rightarrow> nat \<Rightarrow> real) \<Rightarrow> error + gaussian" where
  "Gaussian_init num_components num_features cov noise =
     (if num_components < 0 \<or> num_features < 0 then Inl RuntimeError
      else Inr (Gaussian_reset_parameters noise
             \<lparr>covariance = cov,
              means = empty2 (nat num_components) (nat num_features),
              covars =
                (if cov = ''diag'' then T2 (empty2 (nat num_components) (nat num_features))
                 else if cov = ''spherical'' then T1 (empty1 (nat num_components))
                 else T1 (empty1 (nat num_features)))\<rparr>))"

definition num_components :: "gaussian \<Rightarrow> nat" where
  "num_components h = nrows (means h)"

definition num_features :: "gaussian \<Rightarrow> nat" where
  "num_features h = ncols (means h)"

text \<open>
  \<^verbatim>\<open>t[i]\<close> with an integer: one dimension less. \<^verbatim>\<open>torch.diag\<close>: a vector becomes a square
  matrix with the vector on its diagonal, a matrix becomes the vector of its diagonal, a
  scalar raises.
\<close>

fun select0 :: "tensor \<Rightarrow> int \<Rightarrow> error + tensor" where
  "select0 (T0 x) i = Inl IndexError"
| "select0 (T1 xs) i =
     (case py_index (length xs) i of Inl e \<Rightarrow> Inl e | Inr j \<Rightarrow> Inr (T0 (xs ! j)))"
| "select0 (T2 t) i =
     (case py_index (nrows t) i of Inl e \<Rightarrow> Inl e | Inr j \<Rightarrow> Inr (T1 (trows t ! j)))"

definition diag_matrix :: "fl list \<Rightarrow> tensor2" where
  "diag_matrix xs =
     Tensor2 (length xs)
       (map (\<lambda>a. map (\<lambda>b. if a = b then xs ! a else 0) [0..<length xs]) [0..<length xs])"

fun torch_diag :: "tensor \<Rightarrow> error + tensor" where
  "torch_diag (T0 x) = Inl RuntimeError"
| "torch_diag (T1 xs) = Inr (T2 (diag_matrix xs))"
| "torch_diag (T2 t) = Inr (T1 (map (\<lambda>a. trows t ! a ! a) [0..<min (nrows t) (ncols t)]))"

text \<open>
  \<^verbatim>\<open>x * y\<close> with broadcasting, \<^verbatim>\<open>y\<close> a matrix: a scalar counts as one by one, a vector as
  one row; two sizes agree when they are equal or one of them is 1.
\<close>

definition bc_size :: "nat \<Rightarrow> nat \<Rightarrow> nat option" where
  "bc_size a b = (if a = b then Some a else if a = 1 then Some b else if b = 1 then Some a else None)"

fun as_matrix :: "tensor \<Rightarrow> tensor2" where
  "as_matrix (T0 x) = Tensor2 1 [[x]]"
| "as_matrix (T1 xs) = Tensor2 (length xs) [xs]"
| "as_matrix (T2 t) = t"

definition bc_elem :: "tensor2 \<Rightarrow> nat \<Rightarrow> nat \<Rightarrow> fl" where
  "bc_elem t i j = trows t ! (if nrows t = 1 then 0 else i) ! (if ncols t = 1 then 0 else j)"

definition mul_broadcast :: "tensor \<Rightarrow> tensor2 \<Rightarrow> error + tensor2" where
  "mul_broadcast x y =
     (case (bc_size (nrows (as_matrix x)) (nrows y), bc_size (ncols (as_matrix x)) (ncols y)) of
        (Some r, Some c) \<Rightarrow>
          Inr (Tensor2 c
            (map (\<lambda>i. map (\<lambda>j. fmul (bc_elem (as_matrix x) i j) (bc_elem y i j)) [0..<c]) [0..<r]))
      | _ \<Rightarrow> Inl RuntimeError)"

text \<open>
  \<^verbatim>\<open>Gaussian._get_full_covariance_matrix(i)\<close>, used by \<^verbatim>\<open>sample\<close> to build the covariance
  of component \<^verbatim>\<open>i\<close>.
\<close>

definition get_full_covariance_matrix :: "int \<Rightarrow> gaussian \<Rightarrow> error + tensor" where
  "get_full_covariance_matrix i h =
     (if covariance h = ''diag''
      then (case select0 (covars h) i of Inl e \<Rightarrow> Inl e | Inr c \<Rightarrow> torch_diag c)
      else if covariance h = ''diag-shared''
      then torch_diag (covars h)
      else (case select0 (covars h) i of
              Inl e \<Rightarrow> Inl e
            | Inr c \<Rightarrow>
                (case mul_broadcast c (diag_matrix (replicate (num_features h) (Fin 1))) of
                   Inl e \<Rightarrow> Inl e
                 | Inr m \<Rightarrow> Inr (T2 m))))"

text \<open>
  \<^verbatim>\<open>Gaussian.evaluate(data, log=False)\<close>, the flag \<^verbatim>\<open>log\<close> written \<open>log_space\<close>. The data is
  N by D (the leading dimensions flattened, as \<^verbatim>\<open>data.view(-1, shape[-1])\<close> does); the result
  of \<^verbatim>\<open>log_normal\<close> is viewed as N by K, which raises unless it has N times K elements.

  \<^verbatim>\<open>log_normal\<close> is imported from \<^verbatim>\<open>pycave/bayes/utils.py\<close>, which is not among the sources.
  It is called with \<^verbatim>\<open>self.means\<close> and \<^verbatim>\<open>self.covars\<close> themselves, so whatever it writes into
  them is written into the head. It is the parameter \<open>log_normal\<close> of the model: it maps the
  data, the means and the covariance parameter to its result (or an error) and to the
  contents the means and the covariance parameter have afterwards.
\<close>

fun chunk :: "nat \<Rightarrow> nat \<Rightarrow> fl list \<Rightarrow> fl list list" where
  "chunk 0 c xs = []"
| "chunk (Suc n) c xs = take c xs # chunk n c (drop c xs)"

definition view2 :: "nat \<Rightarrow> nat \<Rightarrow> tensor2 \<Rightarrow> error + tensor2" where
  "view2 n k t =
     (if length (concat (trows t)) = n * k then Inr (Tensor2 k (chunk n k (concat (trows t))))
      else Inl RuntimeError)"

fun fexp :: "fl \<Rightarrow> fl" where
  "fexp (Fin a) = Fin (exp a)"
| "fexp PInf = PInf"
| "fexp NInf = Fin 0"
| "fexp NaN = NaN"

definition Gaussian_evaluate ::
  "(tensor2 \<Rightarrow> tensor2 \<Rightarrow> tensor \<Rightarrow> (error + tensor2) \<times> (tensor2 \<times> tensor)) \<Rightarrow> tensor2 \<Rightarrow> bool
   \<Rightarrow> gaussian \<Rightarrow> (error + tensor2) \<times> gaussian" where
  "Gaussian_evaluate log_normal data log_space h =
     (case log_normal data (means h) (covars h) of
        (r, (m, c)) \<Rightarrow>
          (let h' = h\<lparr>means := m, covars := c\<rparr>
           in case r of
                Inl e \<Rightarrow> (Inl e, h')
              | Inr probs \<Rightarrow>
                  (case view2 (nrows data) (num_components h') probs of
                     Inl e \<Rightarrow> (Inl e, h')
                   | Inr result \<Rightarrow>
                       (if log_space then (Inr result, h')
                        else (Inr (Tensor2 (ncols result) (map (map fexp) (trows result))),
                              h')))))"


text \<open>The dictionary \<^verbatim>\<open>{'means': means, 'covars': covars}\<close> returned by \<^verbatim>\<open>Gaussian.maximize\<close>.\<close>

record gaussian_stats =
  stat_means :: tensor2
  stat_covars :: tensor

text \<open>
  \<^verbatim>\<open>def update(self, current, previous=None): pass\<close> returns Python's \<^verbatim>\<open>None\<close> and touches
  nothing; \<^verbatim>\<open>def apply(self, update): pass\<close> likewise. Both take the head and return it with
  their result; the argument of \<^verbatim>\<open>apply\<close> is whatever the fold of \<^verbatim>\<open>update\<close> produced, a
  record or \<^verbatim>\<open>None\<close>.
\<close>

definition Gaussian_update ::
  "gaussian_stats \<Rightarrow> gaussian_stats option \<Rightarrow> gaussian \<Rightarrow> gaussian_stats option \<times> gaussian" where
  "Gaussian_update current previous h = (None, h)"

definition Gaussian_apply :: "gaussian_stats option \<Rightarrow> gaussian \<Rightarrow> unit \<times> gaussian" where
  "Gaussian_apply update h = ((), h)"

section \<open>The Markov chain estimator\<close>

text \<open>
  The data \<^verbatim>\<open>fit\<close> accepts (\<^verbatim>\<open>SequenceData\<close>): a NumPy array, a PyTorch tensor, or a dataset
  yielding entries. An array or tensor is its element type and its elements in row-major
  order; the elements of an \<^verbatim>\<open>int64\<close> array and of a \<^verbatim>\<open>torch.long\<close> tensor are 64-bit
  signed integers.
\<close>

datatype dtype = Int64 | OtherDtype

datatype seqdata =
    NdArray dtype "64 word list"
  | TorchTensor dtype "64 word list"
  | Dataset "seqdata list"

text \<open>\<^verbatim>\<open>data.max()\<close> of a non-empty array or tensor: the largest element, compared signed.\<close>

definition max_elem :: "64 word list \<Rightarrow> 64 word" where
  "max_elem xs = fold (\<lambda>x m. if sint m < sint x then x else m) (tl xs) (hd xs)"

text \<open>
  Python's \<^verbatim>\<open>max\<close> over a generator: the items are produced in order, the first one that
  raises ends the call, and no item at all is a \<^verbatim>\<open>ValueError\<close>.
\<close>

fun collect :: "(error + int) list \<Rightarrow> error + int list" where
  "collect [] = Inr []"
| "collect (Inl e # rs) = Inl e"
| "collect (Inr v # rs) = (case collect rs of Inl e \<Rightarrow> Inl e | Inr vs \<Rightarrow> Inr (v # vs))"

definition py_max :: "(error + int) list \<Rightarrow> error + int" where
  "py_max rs =
     (case collect rs of
        Inl e \<Rightarrow> Inl e
      | Inr [] \<Rightarrow> Inl ValueError
      | Inr (v # vs) \<Rightarrow> Inr (fold max vs v))"

text \<open>
  \<^verbatim>\<open>_get_num_states(data)\<close>. For an array, \<^verbatim>\<open>data.max() + 1\<close> is computed on a NumPy
  \<^verbatim>\<open>int64\<close> scalar and wraps around; for a tensor, \<^verbatim>\<open>data.max().item() + 1\<close> is computed on a
  Python integer. The maximum of an empty array is a \<^verbatim>\<open>ValueError\<close>, of an empty tensor a
  \<^verbatim>\<open>RuntimeError\<close>.
\<close>

fun get_num_states :: "seqdata \<Rightarrow> error + int" where
  "get_num_states (NdArray dt xs) =
     (if dt \<noteq> Int64 then Inl AssertionError
      else if xs = [] then Inl ValueError
      else Inr (sint (max_elem xs + 1)))"
| "get_num_states (TorchTensor dt xs) =
     (if dt \<noteq> Int64 then Inl AssertionError
      else if xs = [] then Inl RuntimeError
      else Inr (sint (max_elem xs) + 1))"
| "get_num_states (Dataset entries) = py_max (map get_num_states entries)"

text \<open>
  The number of states \<^verbatim>\<open>MarkovChain.fit\<close> configures the model with:
  \<^verbatim>\<open>self.num_states or _get_num_states(sequences)\<close>. Python's \<^verbatim>\<open>or\<close> takes the right-hand side
  when the left is \<^verbatim>\<open>None\<close> or zero.
\<close>

definition fit_num_states :: "int option \<Rightarrow> seqdata \<Rightarrow> error + int" where
  "fit_num_states num_states_opt sequences =
     (case num_states_opt of
        None \<Rightarrow> get_num_states sequences
      | Some n \<Rightarrow> if n \<noteq> 0 then Inr n else get_num_states sequences)"

section \<open>Notions used to state the properties\<close>

text \<open>The elementwise sum of two vectors and of two matrices, and two tensors of one shape.\<close>

definition vec_add :: "fl list \<Rightarrow> fl list \<Rightarrow> fl list" where
  "vec_add x y = map2 (+) x y"

definition mat_add :: "tensor2 \<Rightarrow> tensor2 \<Rightarrow> tensor2" where
  "mat_add x y = Tensor2 (ncols x) (map2 vec_add (trows x) (trows y))"

definition same_shape2 :: "tensor2 \<Rightarrow> tensor2 \<Rightarrow> bool" where
  "same_shape2 x y = (nrows x = nrows y \<and> ncols x = ncols y \<and> wf2 x \<and> wf2 y)"

text \<open>The values a statistics dictionary holds in a state.\<close>

definition stats_value :: "dstate \<Rightarrow> stats \<Rightarrow> tensor2 \<times> fl list" where
  "stats_value s r = (mats s (num r), vecs s (denom r))"



text \<open>
  One epoch over a single batch, as the docstrings of \<^verbatim>\<open>OutputHead\<close> chain the three
  methods: \<^verbatim>\<open>maximize\<close> on the batch, \<^verbatim>\<open>update\<close> of its result with no previous record,
  \<^verbatim>\<open>apply\<close> of the merged record.
\<close>

definition one_batch_epoch :: "int list \<Rightarrow> tensor2 \<Rightarrow> dstate \<Rightarrow> (error + unit) \<times> dstate" where
  "one_batch_epoch sequences gamma s =
     (case Discrete_maximize sequences gamma s of
        (Inl e, s1) \<Rightarrow> (Inl e, s1)
      | (Inr st, s1) \<Rightarrow>
          (case Discrete_update st None s1 of
             (Inl e, s2) \<Rightarrow> (Inl e, s2)
           | (Inr merged, s2) \<Rightarrow> Discrete_apply merged s2))"

text \<open>Concrete states: three statistics records of one shape, and a record whose second
  denominator is zero.\<close>

definition three_records :: dstate where
  "three_records =
     \<lparr>probabilities = uniform22,
      mats = no_mats(0 := Tensor2 2 [[Fin 1, Fin 0], [Fin 0, Fin 1]],
                     1 := Tensor2 2 [[Fin 2, Fin 0], [Fin 1, Fin 1]],
                     2 := Tensor2 2 [[Fin 0, Fin 3], [Fin 1, Fin 0]]),
      vecs = no_vecs(0 := [Fin 1, Fin 1], 1 := [Fin 2, Fin 2], 2 := [Fin 3, Fin 1]),
      next_mat = 3, next_vec = 3\<rparr>"

definition zero_denominator_record :: dstate where
  "zero_denominator_record =
     \<lparr>probabilities = uniform22,
      mats = no_mats(0 := Tensor2 2 [[Fin 1, Fin 0], [Fin 0, Fin 0]]),
      vecs = no_vecs(0 := [Fin 1, Fin 0]),
      next_mat = 1, next_vec = 1\<rparr>"

text \<open>
  A scalar times the identity matrix of size \<open>d\<close>, as \<^verbatim>\<open>c * torch.diag(torch.ones(d))\<close>
  computes it entry by entry; and standard-normal draws that are all zero, for concrete runs.
\<close>

definition scaled_identity :: "fl \<Rightarrow> nat \<Rightarrow> tensor2" where
  "scaled_identity c d =
     Tensor2 d (map (\<lambda>a. map (\<lambda>b. fmul c (if a = b then Fin 1 else 0)) [0..<d]) [0..<d])"

definition zero_noise :: "nat \<Rightarrow> nat \<Rightarrow> real" where
  "zero_noise i j = 0"




text \<open>
  The layout the constructor gives the covariance parameter of a head with \<open>k\<close> components
  and \<open>d\<close> features.
\<close>

fun has_layout :: "nat \<Rightarrow> nat \<Rightarrow> string \<Rightarrow> tensor \<Rightarrow> bool" where
  "has_layout k d cov (T2 t) = (cov = ''diag'' \<and> nrows t = k \<and> ncols t = d \<and> wf2 t)"
| "has_layout k d cov (T1 v) =
     (cov \<noteq> ''diag'' \<and> length v = (if cov = ''spherical'' then k else d))"
| "has_layout k d cov (T0 x) = False"



definition clobbering_log_normal ::
  "tensor2 \<Rightarrow> tensor2 \<Rightarrow> tensor \<Rightarrow> (error + tensor2) \<times> (tensor2 \<times> tensor)" where
  "clobbering_log_normal x m c =
     (Inr (Tensor2 (nrows m) (map (\<lambda>r. replicate (nrows m) 0) (trows x))), (zeros_like m, c))"

section \<open>Facts about the tensor operations\<close>

lemma upt2: "[0..<2] = [0, Suc 0]"
  by (simp add: upt_rec numeral_2_eq_2)

lemma upt3: "[0..<3] = [0, Suc 0, Suc (Suc 0)]"
  by (simp add: upt_rec numeral_3_eq_3)

lemma zip_conv_nth:
  "length xs = length ys \<Longrightarrow> zip xs ys = map (\<lambda>n. (xs ! n, ys ! n)) [0..<length xs]"
  by (rule nth_equalityI) simp_all

lemma filtered_zip_conv:
  assumes "length xs = length ys"
  shows "map snd (filter (\<lambda>p. fst p = a) (zip xs ys))
         = map (\<lambda>n. ys ! n) (filter (\<lambda>n. xs ! n = a) [0..<length xs])"
  by (simp add: zip_conv_nth[OF assms] filter_map o_def)

lemma map_nth_filter_upt:
  "map ((!) (map f [0..<N])) (filter P [0..<N]) = map f (filter P [0..<N])"
  by (rule map_cong) simp_all

lemma scatter_row_ok:
  "\<forall>p\<in>set ps. 0 \<le> fst p \<and> fst p < int (length acc) \<Longrightarrow>
   scatter_row acc ps =
     Inr (map (\<lambda>v. acc ! v + sum_list (map snd (filter (\<lambda>p. fst p = int v) ps))) [0..<length acc])"
proof (induction ps arbitrary: acc)
  case Nil
  show ?case by (simp add: map_nth)
next
  case (Cons p ps)
  obtain i g where p: "p = (i, g)" by (cases p)
  from Cons.prems p have i: "0 \<le> i" "i < int (length acc)" by auto
  let ?acc = "acc[nat i := acc ! nat i + g]"
  have rest: "\<forall>q\<in>set ps. 0 \<le> fst q \<and> fst q < int (length ?acc)"
    using Cons.prems by simp
  have "scatter_row acc (p # ps) = scatter_row ?acc ps"
    using i p by simp
  also have "\<dots> = Inr (map (\<lambda>v. ?acc ! v + sum_list (map snd (filter (\<lambda>p. fst p = int v) ps)))
                        [0..<length ?acc])"
    by (rule Cons.IH[OF rest])
  also have "map (\<lambda>v. ?acc ! v + sum_list (map snd (filter (\<lambda>p. fst p = int v) ps))) [0..<length ?acc]
     = map (\<lambda>v. acc ! v + sum_list (map snd (filter (\<lambda>p. fst p = int v) (p # ps)))) [0..<length acc]"
  proof (rule map_cong)
    show "[0..<length ?acc] = [0..<length acc]" by simp
  next
    fix v assume "v \<in> set [0..<length acc]"
    then have v: "v < length acc" by simp
    show "?acc ! v + sum_list (map snd (filter (\<lambda>p. fst p = int v) ps))
        = acc ! v + sum_list (map snd (filter (\<lambda>p. fst p = int v) (p # ps)))"
    proof (cases "i = int v")
      case True
      then have "nat i = v" by simp
      then show ?thesis using v p True by (simp add: add.assoc)
    next
      case False
      then have "nat i \<noteq> v" using i by auto
      then show ?thesis using p False by simp
    qed
  qed
  finally show ?case .
qed

lemma scatter_rows_ok:
  "\<forall>k\<in>set ks. scatter_row (f k) (zip sq (g k)) = Inr (h k) \<Longrightarrow>
   scatter_rows (map f ks) (replicate (length ks) sq) (map g ks) = Inr (map h ks)"
  by (induction ks) simp_all

lemma zeros_like_rows:
  "wf2 t \<Longrightarrow> trows (zeros_like t) = map (\<lambda>k. replicate (ncols t) 0) [0..<nrows t]"
  by (rule nth_equalityI)
     (auto simp: zeros_like_def wf2_def nrows_def list_all_length map_replicate_const[symmetric]
           simp del: map_replicate_const intro!: nth_equalityI)

lemma fdiv_zero_not_finite: "\<not> is_finite (fdiv n (Fin 0))"
  by (cases n) simp_all

lemma div_broadcast_diagonal:
  assumes ok: "div_broadcast n d = Inr t"
    and wf: "wf2 n"
    and k: "k < nrows n" "k < ncols n" "k < length d"
  shows "k < nrows t \<and> k < length (trows t ! k)
     \<and> trows t ! k ! k = fdiv (trows n ! k ! k) (d ! k)"
proof -
  have len: "length (trows n ! k) = ncols n"
    using wf k(1) by (simp add: wf2_def nrows_def list_all_length)
  consider (eq) "ncols n = length d"
    | (one_col) "ncols n \<noteq> length d" "ncols n = 1"
    | (one_den) "ncols n \<noteq> length d" "ncols n \<noteq> 1" "length d = 1"
    using ok by (auto simp: div_broadcast_def split: if_splits)
  then show ?thesis
  proof cases
    case eq
    then have "t = Tensor2 (ncols n) (map (\<lambda>r. map2 fdiv r d) (trows n))"
      using ok by (simp add: div_broadcast_def)
    then show ?thesis
      using k len eq by (simp add: nrows_def)
  next
    case one_col
    then have t: "t = Tensor2 (length d) (map (\<lambda>r. map (\<lambda>x. fdiv (hd r) x) d) (trows n))"
      using ok by (simp add: div_broadcast_def)
    have k0: "k = 0"
      using k(2) one_col(2) by simp
    have "hd (trows n ! 0) = trows n ! 0 ! 0"
      using len one_col(2) k0 by (cases "trows n ! 0") simp_all
    then show ?thesis
      using k t k0 by (simp add: nrows_def)
  next
    case one_den
    then have t: "t = Tensor2 (ncols n) (map (\<lambda>r. map (\<lambda>x. fdiv x (hd d)) r) (trows n))"
      using ok by (simp add: div_broadcast_def)
    have k0: "k = 0"
      using k(3) one_den(3) by simp
    have "hd d = d ! 0"
      using one_den(3) by (cases d) simp_all
    then show ?thesis
      using k t k0 len by (simp add: nrows_def)
  qed
qed

section \<open>Facts about the merge of statistics\<close>











lemma iadd_vec_same: "length y = length x \<Longrightarrow> iadd_vec x y = Inr (vec_add x y)"
  by (simp add: iadd_vec_def vec_add_def)

lemma add_rows_same:
  assumes "\<forall>r\<in>set rx. length r = c" and "\<forall>r\<in>set ry. length r = c"
  shows "map2 add_row rx ry = map2 vec_add rx ry"
proof (rule map_cong)
  fix p assume p: "p \<in> set (zip rx ry)"
  obtain a b where ab: "p = (a, b)"
    by (cases p)
  have "fst p \<in> set rx"
    using p ab by (simp add: set_zip_leftD)
  moreover have "snd p \<in> set ry"
    using p ab by (simp add: set_zip_rightD)
  ultimately have "length (fst p) = c" "length (snd p) = c"
    using assms by auto
  then show "(case p of (a, b) \<Rightarrow> add_row a b) = (case p of (a, b) \<Rightarrow> vec_add a b)"
    by (cases p) (simp add: add_row_def vec_add_def)
qed simp

lemma iadd_mat_same:
  assumes "same_shape2 x y"
  shows "iadd_mat x y = Inr (mat_add x y)"
proof -
  have "map2 add_row (trows x) (trows y) = map2 vec_add (trows x) (trows y)"
    using assms by (intro add_rows_same[of _ "ncols x"]) (auto simp: same_shape2_def wf2_def list_all_iff)
  moreover have "nrows y = nrows x" "ncols y = ncols x"
    using assms by (simp_all add: same_shape2_def)
  ultimately show ?thesis
    unfolding iadd_mat_def mat_add_def by simp
qed

lemma Discrete_update_same:
  assumes "same_shape2 (mats s (num a)) (mats s (num b))"
    and "length (vecs s (denom b)) = length (vecs s (denom a))"
  shows "Discrete_update a (Some b) s =
     (Inr \<lparr>num = num a, denom = denom a\<rparr>,
      s\<lparr>mats := (mats s)(num a := mat_add (mats s (num a)) (mats s (num b))),
        vecs := (vecs s)(denom a := vec_add (vecs s (denom a)) (vecs s (denom b)))\<rparr>)"
proof -
  have m: "iadd_mat (mats s (num a)) (mats s (num b)) = Inr (mat_add (mats s (num a)) (mats s (num b)))"
    by (rule iadd_mat_same[OF assms(1)])
  have v: "iadd_vec (vecs s (denom a)) (vecs s (denom b)) = Inr (vec_add (vecs s (denom a)) (vecs s (denom b)))"
    by (rule iadd_vec_same[OF assms(2)])
  show ?thesis
    unfolding Discrete_update_def option.case m sum.case Let_def
    by (simp add: v)
qed



lemmas run_defs =
  one_batch_epoch_def Discrete_maximize_def Discrete_update_def Discrete_apply_def
  empty_store_def uniform22_def num_states_def nrows_def transpose2_def column_def
  view_expand_def zeros_like_def scatter_add_1_def sum0_def div_broadcast_def
  no_mats_def no_vecs_def plus_fl_def zero_fl_def upt2 upt3

lemmas store_defs =
  three_records_def uniform22_def no_mats_def no_vecs_def same_shape2_def nrows_def wf2_def

section \<open>Properties of the Discrete head\<close>

text \<open>
  C5. For a head with K states and a table of V columns, a symbol vector of length N with
  every symbol in \<open>0 \<le> x < V\<close> and an N-by-K responsibility matrix, \<^verbatim>\<open>maximize\<close> returns:
  \<^verbatim>\<open>num[k][v]\<close> is the sum of \<^verbatim>\<open>gamma[n][k]\<close> over the positions n with \<^verbatim>\<open>data[n] = v\<close>,
  \<^verbatim>\<open>denom[k]\<close> is the sum of \<^verbatim>\<open>gamma[n][k]\<close> over all n, and the probability table is the one
  the call found.
\<close>

theorem Discrete_maximize_statistics:
  assumes "wf2 (probabilities s)"
    and "ncols gamma = num_states s"
    and "nrows gamma = length sequences"
    and "\<forall>x\<in>set sequences. 0 \<le> x \<and> x < int (ncols (probabilities s))"
  shows "\<exists>st s'. Discrete_maximize sequences gamma s = (Inr st, s')
     \<and> mats s' (num st) = Tensor2 (ncols (probabilities s))
          (map (\<lambda>k. map (\<lambda>v. \<Sum>n\<leftarrow>filter (\<lambda>n. sequences ! n = int v) [0..<length sequences].
                                 trows gamma ! n ! k)
                        [0..<ncols (probabilities s)])
               [0..<num_states s])
     \<and> vecs s' (denom st) =
          map (\<lambda>k. \<Sum>n\<leftarrow>[0..<length sequences]. trows gamma ! n ! k) [0..<num_states s]
     \<and> probabilities s' = probabilities s"
proof -
  let ?K = "num_states s" and ?V = "ncols (probabilities s)" and ?N = "length sequences"
  let ?num = "map (\<lambda>k. map (\<lambda>v. \<Sum>n\<leftarrow>filter (\<lambda>n. sequences ! n = int v) [0..<?N].
                                 trows gamma ! n ! k) [0..<?V]) [0..<?K]"
  have col: "column gamma k = map (\<lambda>n. trows gamma ! n ! k) [0..<?N]" for k
    using assms(3) by (auto simp: column_def nrows_def intro!: nth_equalityI)
  have row: "scatter_row (replicate ?V 0) (zip sequences (column gamma k)) = Inr (?num ! k)"
    if "k < ?K" for k
  proof -
    have len: "length sequences = length (column gamma k)"
      using assms(3) by (simp add: column_def nrows_def)
    have rng: "\<forall>p\<in>set (zip sequences (column gamma k)). 0 \<le> fst p \<and> fst p < int (length (replicate ?V (0::fl)))"
      using assms(4) by (auto dest: set_zip_leftD)
    show ?thesis
      unfolding scatter_row_ok[OF rng] filtered_zip_conv[OF len]
      using that by (simp add: col map_nth_filter_upt)
  qed
  have rows: "scatter_rows (trows (zeros_like (probabilities s)))
                (irows (view_expand ?K sequences)) (trows (transpose2 gamma)) = Inr ?num"
  proof -
    have "scatter_rows (map (\<lambda>k. replicate ?V 0) [0..<?K]) (replicate (length [0..<?K]) sequences)
            (map (column gamma) [0..<?K]) = Inr (map (\<lambda>k. ?num ! k) [0..<?K])"
      by (rule scatter_rows_ok) (use row in simp)
    moreover have "map (\<lambda>k. ?num ! k) [0..<?K] = ?num"
      by (rule nth_equalityI) simp_all
    ultimately show ?thesis
      using assms(1,2) by (simp add: zeros_like_rows view_expand_def transpose2_def num_states_def)
  qed
  have sc: "scatter_add_1 (zeros_like (probabilities s)) (view_expand ?K sequences) (transpose2 gamma)
            = Inr (Tensor2 ?V ?num)"
  proof (cases "?K = 0 \<or> ?N = 0")
    case True
    then have "?num = trows (zeros_like (probabilities s))"
      using assms(1) by (auto simp: zeros_like_rows num_states_def intro!: nth_equalityI)
    then show ?thesis
      using True by (auto simp: scatter_add_1_def view_expand_def zeros_like_def)
  next
    case False
    then show ?thesis
      using rows assms(1,2,3)
      by (simp add: scatter_add_1_def view_expand_def transpose2_def nrows_def zeros_like_def
            num_states_def)
  qed
  have den: "sum0 gamma = map (\<lambda>k. \<Sum>n\<leftarrow>[0..<?N]. trows gamma ! n ! k) [0..<?K]"
    using assms(2) by (simp add: sum0_def col)
  show ?thesis
    by (simp add: Discrete_maximize_def Let_def sc den)
qed

text \<open>
  C5 at a concrete input: two states, two symbols, the data \<open>[0, 1]\<close> and the
  responsibilities \<open>[[1, 0], [1, 1]]\<close> give \<^verbatim>\<open>num = [[1, 1], [0, 1]]\<close> and
  \<^verbatim>\<open>denom = [2, 1]\<close>.
\<close>

theorem Discrete_maximize_statistics_witness:
  "wf2 (probabilities (empty_store uniform22))
   \<and> ncols (Tensor2 2 [[Fin 1, Fin 0], [Fin 1, Fin 1]]) = num_states (empty_store uniform22)
   \<and> nrows (Tensor2 2 [[Fin 1, Fin 0], [Fin 1, Fin 1]]) = length [0, 1 :: int]
   \<and> list_all (\<lambda>x. 0 \<le> x \<and> x < int (ncols (probabilities (empty_store uniform22)))) [0, 1]
   \<and> (\<exists>st s'. Discrete_maximize [0, 1] (Tensor2 2 [[Fin 1, Fin 0], [Fin 1, Fin 1]])
                  (empty_store uniform22) = (Inr st, s')
        \<and> mats s' (num st) = Tensor2 2 [[Fin 1, Fin 1], [Fin 0, Fin 1]]
        \<and> vecs s' (denom st) = [Fin 2, Fin 1]
        \<and> probabilities s' = uniform22)"
proof -
  have h1: "wf2 (probabilities (empty_store uniform22))"
    by (simp add: empty_store_def uniform22_def wf2_def)
  have h2: "ncols (Tensor2 2 [[Fin 1, Fin 0], [Fin 1, Fin 1]]) = num_states (empty_store uniform22)"
    by (simp add: empty_store_def uniform22_def num_states_def nrows_def)
  have h3: "nrows (Tensor2 2 [[Fin 1, Fin 0], [Fin 1, Fin 1]]) = length [0, 1 :: int]"
    by (simp add: nrows_def)
  have h4: "\<forall>x\<in>set [0, 1 :: int]. 0 \<le> x \<and> x < int (ncols (probabilities (empty_store uniform22)))"
    by (simp add: empty_store_def uniform22_def)
  show ?thesis
    using h1 h2 h3 h4 Discrete_maximize_statistics[OF h1 h2 h3 h4]
    by (simp add: empty_store_def uniform22_def num_states_def nrows_def upt2 plus_fl_def zero_fl_def)
qed




text \<open>
  C10. \<^verbatim>\<open>update(a, b)\<close> with two records of one shape writes into \<^verbatim>\<open>a\<close>: afterwards the
  tensors of \<^verbatim>\<open>a\<close> hold the elementwise sums (the values \<^verbatim>\<open>a\<close> held before are gone), and the
  returned record refers to those same tensors, so it holds the same sums.
\<close>

theorem Discrete_update_in_place:
  assumes "same_shape2 (mats s (num a)) (mats s (num b))"
    and "length (vecs s (denom b)) = length (vecs s (denom a))"
  shows "\<exists>r s'. Discrete_update a (Some b) s = (Inr r, s')
     \<and> mats s' (num a) = mat_add (mats s (num a)) (mats s (num b))
     \<and> vecs s' (denom a) = vec_add (vecs s (denom a)) (vecs s (denom b))
     \<and> num r = num a \<and> denom r = denom a
     \<and> stats_value s' r = (mat_add (mats s (num a)) (mats s (num b)),
                            vec_add (vecs s (denom a)) (vecs s (denom b)))"
  by (simp add: Discrete_update_same[OF assms] stats_value_def)

text \<open>
  C10 at a concrete input: after \<^verbatim>\<open>update(a, b)\<close> with
  \<^verbatim>\<open>a = ([[1, 0], [0, 1]], [1, 1])\<close> and \<^verbatim>\<open>b = ([[2, 0], [1, 1]], [2, 2])\<close>, the record
  \<^verbatim>\<open>a\<close> holds \<^verbatim>\<open>([[3, 0], [1, 2]], [3, 3])\<close>.
\<close>

theorem Discrete_update_in_place_witness:
  "same_shape2 (mats three_records 0) (mats three_records 1)
   \<and> length (vecs three_records 1) = length (vecs three_records 0)
   \<and> (\<exists>r s'. Discrete_update \<lparr>num = 0, denom = 0\<rparr> (Some \<lparr>num = 1, denom = 1\<rparr>) three_records
                  = (Inr r, s')
        \<and> mats s' 0 = Tensor2 2 [[Fin 3, Fin 0], [Fin 1, Fin 2]]
        \<and> vecs s' 0 = [Fin 3, Fin 3]
        \<and> num r = 0 \<and> denom r = 0
        \<and> stats_value s' r = (Tensor2 2 [[Fin 3, Fin 0], [Fin 1, Fin 2]], [Fin 3, Fin 3]))"
proof -
  have h1: "same_shape2 (mats three_records (num \<lparr>num = 0, denom = 0\<rparr>))
                        (mats three_records (num \<lparr>num = 1, denom = 1\<rparr>))"
    by (simp add: store_defs)
  have h2: "length (vecs three_records (denom \<lparr>num = 1, denom = 1\<rparr>))
            = length (vecs three_records (denom \<lparr>num = 0, denom = 0\<rparr>))"
    by (simp add: store_defs)
  have v: "mat_add (mats three_records 0) (mats three_records (Suc 0))
             = Tensor2 2 [[Fin 3, Fin 0], [Fin 1, Fin 2]]"
          "vec_add (vecs three_records 0) (vecs three_records (Suc 0)) = [Fin 3, Fin 3]"
    by (simp_all add: store_defs mat_add_def vec_add_def plus_fl_def)
  show ?thesis
    using h1 h2 Discrete_update_in_place[OF h1 h2] by (simp add: v)
qed

text \<open>
  C2 (the code breaks it). With two states and two symbols, the data \<open>[0, 1, 1]\<close> and the
  responsibilities \<open>[[1, 0], [1/2, 1/2], [1/2, 1/2]]\<close>, \<^verbatim>\<open>maximize\<close>, \<^verbatim>\<open>update\<close> and
  \<^verbatim>\<open>apply\<close> succeed, both denominators are positive (2 and 1), and the first row of the new
  table is \<open>[1/2, 1]\<close>, which sums to 3/2: \<^verbatim>\<open>num / denom\<close> divides column j by \<^verbatim>\<open>denom[j]\<close>
  where every row was to be divided by its own denominator.
\<close>

theorem Discrete_apply_row_sum_off:
  "fst (one_batch_epoch [0, 1, 1]
          (Tensor2 2 [[Fin 1, Fin 0], [Fin (1/2), Fin (1/2)], [Fin (1/2), Fin (1/2)]])
          (empty_store uniform22)) = Inr ()
   \<and> vecs (snd (one_batch_epoch [0, 1, 1]
          (Tensor2 2 [[Fin 1, Fin 0], [Fin (1/2), Fin (1/2)], [Fin (1/2), Fin (1/2)]])
          (empty_store uniform22))) 0 = [Fin 2, Fin 1]
   \<and> probabilities (snd (one_batch_epoch [0, 1, 1]
          (Tensor2 2 [[Fin 1, Fin 0], [Fin (1/2), Fin (1/2)], [Fin (1/2), Fin (1/2)]])
          (empty_store uniform22)))
     = Tensor2 2 [[Fin (1/2), Fin 1], [Fin 0, Fin 1]]
   \<and> sum_list (trows (probabilities (snd (one_batch_epoch [0, 1, 1]
          (Tensor2 2 [[Fin 1, Fin 0], [Fin (1/2), Fin (1/2)], [Fin (1/2), Fin (1/2)]])
          (empty_store uniform22)))) ! 0)
     = Fin (3/2)"
  by (simp add: run_defs)

text \<open>
  C3 as stated fails. With the data \<open>[0]\<close> and the responsibilities \<open>[[1, 0]]\<close> the second
  state has denominator zero; after \<^verbatim>\<open>apply\<close> the second row of the table is no longer
  \<open>[1/2, 1/2]\<close> but \<open>[0, NaN]\<close>.
\<close>

theorem Discrete_apply_zero_denominator:
  "fst (one_batch_epoch [0] (Tensor2 2 [[Fin 1, Fin 0]]) (empty_store uniform22)) = Inr ()
   \<and> vecs (snd (one_batch_epoch [0] (Tensor2 2 [[Fin 1, Fin 0]]) (empty_store uniform22))) 0 ! 1
     = Fin 0
   \<and> trows (probabilities (empty_store uniform22)) ! 1 = [Fin (1/2), Fin (1/2)]
   \<and> trows (probabilities (snd (one_batch_epoch [0] (Tensor2 2 [[Fin 1, Fin 0]])
                  (empty_store uniform22)))) ! 1 = [Fin 0, NaN]"
  by (simp add: run_defs)

text \<open>
  C3, amended. \<^verbatim>\<open>apply\<close> has no guard for a zero denominator. Let state k have denominator
  zero in the merged record, with k also below the number of symbols. When \<^verbatim>\<open>apply\<close>
  succeeds, the new table is computed from the record alone (it is the same whatever the
  table was before), and its entry for state k and symbol k is \<^verbatim>\<open>num[k][k]\<close> divided by zero:
  NaN when \<^verbatim>\<open>num[k][k]\<close> is zero, never a finite number. So row k holds an entry that is not
  finite, and it is not the row it was if that row was finite there.
\<close>

theorem Discrete_apply_unguarded:
  assumes ok: "fst (Discrete_apply u s) = Inr ()"
    and wf: "wf2 (mats s (num u))"
    and k: "k < nrows (mats s (num u))" "k < ncols (mats s (num u))"
           "k < length (vecs s (denom u))"
    and z: "vecs s (denom u) ! k = Fin 0"
  shows "probabilities (snd (Discrete_apply u (s\<lparr>probabilities := p\<rparr>)))
           = probabilities (snd (Discrete_apply u s))
     \<and> k < nrows (probabilities (snd (Discrete_apply u s)))
     \<and> k < length (trows (probabilities (snd (Discrete_apply u s))) ! k)
     \<and> trows (probabilities (snd (Discrete_apply u s))) ! k ! k
         = fdiv (trows (mats s (num u)) ! k ! k) (Fin 0)
     \<and> \<not> is_finite (trows (probabilities (snd (Discrete_apply u s))) ! k ! k)
     \<and> (trows (mats s (num u)) ! k ! k = Fin 0 \<longrightarrow>
          trows (probabilities (snd (Discrete_apply u s))) ! k ! k = NaN)
     \<and> (is_finite (trows (probabilities s) ! k ! k) \<longrightarrow>
          trows (probabilities (snd (Discrete_apply u s))) ! k \<noteq> trows (probabilities s) ! k)"
proof -
  obtain t where t: "div_broadcast (mats s (num u)) (vecs s (denom u)) = Inr t"
    using ok by (cases "div_broadcast (mats s (num u)) (vecs s (denom u))")
      (simp_all add: Discrete_apply_def)
  have new: "probabilities (snd (Discrete_apply u s)) = t"
    by (simp add: Discrete_apply_def t)
  have same: "probabilities (snd (Discrete_apply u (s\<lparr>probabilities := p\<rparr>))) = t"
    by (simp add: Discrete_apply_def t)
  have d: "k < nrows t" "k < length (trows t ! k)"
    "trows t ! k ! k = fdiv (trows (mats s (num u)) ! k ! k) (Fin 0)"
    using div_broadcast_diagonal[OF t wf k] z by simp_all
  have nf: "\<not> is_finite (trows t ! k ! k)"
    unfolding d(3) by (rule fdiv_zero_not_finite)
  have nan: "trows t ! k ! k = NaN" if "trows (mats s (num u)) ! k ! k = Fin 0"
    unfolding d(3) that by simp
  have changed: "trows t ! k \<noteq> trows (probabilities s) ! k"
    if "is_finite (trows (probabilities s) ! k ! k)"
    using that nf by auto
  show ?thesis
    unfolding new same using d nf nan changed by blast
qed

text \<open>
  C3, amended, at a concrete input: for the record \<^verbatim>\<open>([[1, 0], [0, 0]], [1, 0])\<close> and state 1,
  the entry (1, 1) of the new table is NaN, row 1 is no longer \<open>[1/2, 1/2]\<close>, and the new table
  is the same whether the table before was uniform or the identity.
\<close>

theorem Discrete_apply_unguarded_witness:
  "fst (Discrete_apply \<lparr>num = 0, denom = 0\<rparr> zero_denominator_record) = Inr ()
   \<and> wf2 (mats zero_denominator_record 0)
   \<and> vecs zero_denominator_record 0 ! 1 = Fin 0
   \<and> trows (mats zero_denominator_record 0) ! 1 ! 1 = Fin 0
   \<and> trows (probabilities zero_denominator_record) ! 1 = [Fin (1/2), Fin (1/2)]
   \<and> trows (probabilities (snd (Discrete_apply \<lparr>num = 0, denom = 0\<rparr> zero_denominator_record)))
        ! 1 ! 1 = NaN
   \<and> trows (probabilities (snd (Discrete_apply \<lparr>num = 0, denom = 0\<rparr> zero_denominator_record)))
        ! 1 \<noteq> trows (probabilities zero_denominator_record) ! 1
   \<and> probabilities (snd (Discrete_apply \<lparr>num = 0, denom = 0\<rparr>
        (zero_denominator_record\<lparr>probabilities := Tensor2 2 [[Fin 1, Fin 0], [Fin 0, Fin 1]]\<rparr>)))
     = probabilities (snd (Discrete_apply \<lparr>num = 0, denom = 0\<rparr> zero_denominator_record))"
proof -
  let ?u = "\<lparr>num = 0, denom = 0\<rparr>"
  have h1: "fst (Discrete_apply ?u zero_denominator_record) = Inr ()"
    by (simp add: Discrete_apply_def zero_denominator_record_def div_broadcast_def)
  have h2: "wf2 (mats zero_denominator_record (num ?u))"
    by (simp add: zero_denominator_record_def wf2_def)
  have h3: "1 < nrows (mats zero_denominator_record (num ?u))"
    "1 < ncols (mats zero_denominator_record (num ?u))"
    "1 < length (vecs zero_denominator_record (denom ?u))"
    by (simp_all add: zero_denominator_record_def nrows_def)
  have h4: "vecs zero_denominator_record (denom ?u) ! 1 = Fin 0"
    by (simp add: zero_denominator_record_def)
  have n: "trows (mats zero_denominator_record 0) ! 1 ! 1 = Fin 0"
    by (simp add: zero_denominator_record_def)
  have o: "trows (probabilities zero_denominator_record) ! 1 = [Fin (1/2), Fin (1/2)]"
    by (simp add: zero_denominator_record_def uniform22_def)
  note th = Discrete_apply_unguarded[OF h1 h2 h3 h4,
      of "Tensor2 2 [[Fin 1, Fin 0], [Fin 0, Fin 1]]"]
  show ?thesis
    using th h1 h2 h4 n o by simp
qed

section \<open>Properties of the Gaussian head\<close>

text \<open>
  C1 (the code does not do what the claim says): \<^verbatim>\<open>Gaussian.apply\<close> is not a mutation
  point. Whatever statistics it is given, the head it leaves behind is the head it found, and
  \<^verbatim>\<open>Gaussian.update\<close> returns \<^verbatim>\<open>None\<close> instead of a merged record. At the head with mean 0
  and variance 1 and the record with mean 5 and variance 2 the means stay at 0.
\<close>

theorem Gaussian_apply_changes_nothing:
  "snd (Gaussian_apply u h) = h
   \<and> fst (Gaussian_update c p h) = None
   \<and> snd (Gaussian_update c p h) = h
   \<and> means (snd (Gaussian_apply
        (Some \<lparr>stat_means = Tensor2 1 [[Fin 5]], stat_covars = T2 (Tensor2 1 [[Fin 2]])\<rparr>)
        \<lparr>covariance = ''diag'', means = Tensor2 1 [[Fin 0]],
         covars = T2 (Tensor2 1 [[Fin 1]])\<rparr>)) = Tensor2 1 [[Fin 0]]"
  by (simp add: Gaussian_apply_def Gaussian_update_def)

lemmas init_defs =
  Gaussian_init_def Gaussian_reset_parameters_def empty1_def empty2_def normal_fill_def
  nrows_def zero_noise_def

lemma Gaussian_init_Inr:
  assumes "0 \<le> K" and "0 \<le> D"
  shows "Gaussian_init K D cov noise =
     Inr \<lparr>covariance = cov,
          means = Tensor2 (nat D) (map (\<lambda>i. map (\<lambda>j. Fin (noise i j)) [0..<nat D]) [0..<nat K]),
          covars = (if cov = ''diag'' then T2 (Tensor2 (nat D) (replicate (nat K) (replicate (nat D) (Fin 1))))
                    else if cov = ''spherical'' then T1 (replicate (nat K) (Fin 1))
                    else T1 (replicate (nat D) (Fin 1)))\<rparr>"
  using assms
  by (auto simp: init_defs map_replicate_const intro!: map_cong)

lemma Gaussian_init_layout:
  assumes "0 \<le> K" and "0 \<le> D"
  shows "\<exists>h0. Gaussian_init K D cov noise = Inr h0 \<and> covariance h0 = cov
     \<and> num_components h0 = nat K \<and> num_features h0 = nat D
     \<and> has_layout (nat K) (nat D) cov (covars h0)"
  by (simp add: Gaussian_init_Inr[OF assms] num_components_def num_features_def nrows_def
        wf2_def list_all_iff)

lemma py_index_in_range: "0 \<le> i \<Longrightarrow> i < int n \<Longrightarrow> py_index n i = Inr (nat i)"
  by (simp add: py_index_def)

lemma get_full_diag:
  assumes "covariance h = ''diag''" and "covars h = T2 t" and "0 \<le> i" and "i < int (nrows t)"
  shows "get_full_covariance_matrix i h = Inr (T2 (diag_matrix (trows t ! nat i)))"
  using assms by (simp add: get_full_covariance_matrix_def py_index_in_range)

lemma get_full_diag_shared:
  assumes "covariance h = ''diag-shared''" and "covars h = T1 v"
  shows "get_full_covariance_matrix i h = Inr (T2 (diag_matrix v))"
  using assms by (simp add: get_full_covariance_matrix_def)

lemma diag_matrix_ones:
  "diag_matrix (replicate d (Fin 1)) =
     Tensor2 d (map (\<lambda>a. map (\<lambda>b. if a = b then Fin 1 else 0) [0..<d]) [0..<d])"
  by (simp add: diag_matrix_def)

lemma mul_scalar_identity:
  "mul_broadcast (T0 c) (diag_matrix (replicate d (Fin 1))) = Inr (scaled_identity c d)"
proof -
  have "bc_elem (diag_matrix (replicate d (Fin 1))) a b = (if a = b then Fin 1 else 0)"
    if "a < d" "b < d" for a b
    using that by (auto simp: diag_matrix_ones bc_elem_def nrows_def)
  then show ?thesis
    by (simp add: mul_broadcast_def diag_matrix_ones scaled_identity_def nrows_def bc_size_def
          bc_elem_def)
qed

lemma get_full_scalar:
  assumes "covariance h \<noteq> ''diag''" and "covariance h \<noteq> ''diag-shared''"
    and "covars h = T1 v" and "0 \<le> i" and "i < int (length v)"
  shows "get_full_covariance_matrix i h = Inr (T2 (scaled_identity (v ! nat i) (num_features h)))"
  using assms
  by (simp add: get_full_covariance_matrix_def py_index_in_range mul_scalar_identity)

lemma scaled_identity_finite:
  "scaled_identity (Fin x) d = diag_matrix (replicate d (Fin x))"
  by (simp add: scaled_identity_def diag_matrix_def zero_fl_def)

text \<open>
  C6 as stated fails. Constructing a head with the covariance name \<^verbatim>\<open>'banana'\<close> succeeds and
  yields a usable head with a covariance vector of length D.
\<close>

theorem Gaussian_init_unknown_name:
  "Gaussian_init 2 3 ''banana'' zero_noise =
     Inr \<lparr>covariance = ''banana'',
          means = Tensor2 3 [[Fin 0, Fin 0, Fin 0], [Fin 0, Fin 0, Fin 0]],
          covars = T1 [Fin 1, Fin 1, Fin 1]\<rparr>"
  by (simp add: init_defs upt3 upt2 numeral_3_eq_3 numeral_2_eq_2)

text \<open>
  C6, amended. \<^verbatim>\<open>Gaussian.__init__\<close> does not validate the covariance name: for every string
  and all non-negative sizes the construction succeeds and the head carries the name as given;
  every name other than \<^verbatim>\<open>'diag'\<close> and \<^verbatim>\<open>'spherical'\<close> gets a covariance vector of length D
  filled with ones.
\<close>

theorem Gaussian_init_never_validates:
  assumes "0 \<le> K" and "0 \<le> D"
  shows "\<exists>h. Gaussian_init K D cov noise = Inr h \<and> covariance h = cov
     \<and> (cov \<noteq> ''diag'' \<and> cov \<noteq> ''spherical'' \<longrightarrow> covars h = T1 (replicate (nat D) (Fin 1)))"
  by (simp add: Gaussian_init_Inr[OF assms])

text \<open>C6, amended, at a concrete input: two components, three features, \<^verbatim>\<open>'diag-shared'\<close>.\<close>

theorem Gaussian_init_never_validates_witness:
  "(0::int) \<le> 2 \<and> (0::int) \<le> 3
   \<and> (\<exists>h. Gaussian_init 2 3 ''diag-shared'' zero_noise = Inr h
          \<and> covariance h = ''diag-shared'' \<and> covars h = T1 [Fin 1, Fin 1, Fin 1])"
proof -
  have h1: "(0::int) \<le> 2" and h2: "(0::int) \<le> 3"
    by simp_all
  show ?thesis
    using Gaussian_init_never_validates[OF h1 h2, of "''diag-shared''" zero_noise]
    by (simp add: numeral_3_eq_3)
qed

text \<open>
  C7 as stated fails. A head constructed with the covariance name \<^verbatim>\<open>'full'\<close>, two components
  and three features stores one vector of length three, not a three-by-three matrix per
  component.
\<close>

theorem Gaussian_init_full_name:
  "Gaussian_init 2 3 ''full'' zero_noise =
     Inr \<lparr>covariance = ''full'',
          means = Tensor2 3 [[Fin 0, Fin 0, Fin 0], [Fin 0, Fin 0, Fin 0]],
          covars = T1 [Fin 1, Fin 1, Fin 1]\<rparr>"
  by (simp add: init_defs upt3 upt2 numeral_3_eq_3 numeral_2_eq_2)

text \<open>
  C7, amended. A head constructed with K components and D features has K by D means and a
  covariance parameter that is K by D for \<^verbatim>\<open>'diag'\<close>, a vector of length K for
  \<^verbatim>\<open>'spherical'\<close>, and one vector of length D for every other name (no name stores a D-by-D
  matrix). For every head, whatever values its covariance parameter holds,
  \<^verbatim>\<open>_get_full_covariance_matrix(i)\<close> returns: for \<^verbatim>\<open>'diag'\<close> and a row index i, the matrix with
  row i of the parameter on its diagonal and zeros elsewhere; for \<^verbatim>\<open>'spherical'\<close> and an index
  i whose entry is the finite number x, the D-by-D matrix with x on its diagonal and zeros
  elsewhere; for \<^verbatim>\<open>'diag-shared'\<close>, the matrix with the one vector on its diagonal, for every
  i.
\<close>

theorem Gaussian_covariance_layout:
  "(0 \<le> K \<and> 0 \<le> D \<longrightarrow>
      (\<exists>h0. Gaussian_init K D cov noise = Inr h0 \<and> covariance h0 = cov
         \<and> num_components h0 = nat K \<and> num_features h0 = nat D
         \<and> has_layout (nat K) (nat D) cov (covars h0)))
   \<and> (covariance h = ''diag'' \<and> covars h = T2 t \<and> 0 \<le> i \<and> i < int (nrows t) \<longrightarrow>
        get_full_covariance_matrix i h = Inr (T2 (diag_matrix (trows t ! nat i))))
   \<and> (covariance h = ''spherical'' \<and> covars h = T1 v \<and> 0 \<le> i \<and> i < int (length v)
        \<and> v ! nat i = Fin x \<longrightarrow>
        get_full_covariance_matrix i h
          = Inr (T2 (diag_matrix (replicate (num_features h) (Fin x)))))
   \<and> (covariance h = ''diag-shared'' \<and> covars h = T1 v \<longrightarrow>
        get_full_covariance_matrix i h = Inr (T2 (diag_matrix v)))"
proof (intro conjI impI)
  assume "0 \<le> K \<and> 0 \<le> D"
  then show "\<exists>h0. Gaussian_init K D cov noise = Inr h0 \<and> covariance h0 = cov
         \<and> num_components h0 = nat K \<and> num_features h0 = nat D
         \<and> has_layout (nat K) (nat D) cov (covars h0)"
    by (intro Gaussian_init_layout) simp_all
next
  assume "covariance h = ''diag'' \<and> covars h = T2 t \<and> 0 \<le> i \<and> i < int (nrows t)"
  then show "get_full_covariance_matrix i h = Inr (T2 (diag_matrix (trows t ! nat i)))"
    by (intro get_full_diag) simp_all
next
  assume a: "covariance h = ''spherical'' \<and> covars h = T1 v \<and> 0 \<le> i \<and> i < int (length v)
        \<and> v ! nat i = Fin x"
  then have "get_full_covariance_matrix i h
      = Inr (T2 (scaled_identity (v ! nat i) (num_features h)))"
    by (intro get_full_scalar) simp_all
  then show "get_full_covariance_matrix i h
          = Inr (T2 (diag_matrix (replicate (num_features h) (Fin x))))"
    using a by (simp add: scaled_identity_finite)
next
  assume "covariance h = ''diag-shared'' \<and> covars h = T1 v"
  then show "get_full_covariance_matrix i h = Inr (T2 (diag_matrix v))"
    by (intro get_full_diag_shared) simp_all
qed

text \<open>
  C7, amended, at concrete inputs: the constructor with the name \<^verbatim>\<open>'full'\<close>, and the matrix
  of component 1 for a diagonal parameter \<open>[[1, 2], [3, 4]]\<close>, a spherical \<open>[2, 5]\<close> and a
  shared diagonal \<open>[7, 9]\<close>.
\<close>

theorem Gaussian_covariance_layout_witness:
  "(\<exists>h0. Gaussian_init 2 3 ''full'' zero_noise = Inr h0 \<and> covariance h0 = ''full''
        \<and> num_components h0 = 2 \<and> num_features h0 = 3 \<and> has_layout 2 3 ''full'' (covars h0))
   \<and> has_layout 2 3 ''full'' (T1 [Fin 1, Fin 1, Fin 1])
   \<and> get_full_covariance_matrix 1
        \<lparr>covariance = ''diag'', means = Tensor2 2 [[Fin 0, Fin 0], [Fin 0, Fin 0]],
         covars = T2 (Tensor2 2 [[Fin 1, Fin 2], [Fin 3, Fin 4]])\<rparr>
       = Inr (T2 (Tensor2 2 [[Fin 3, Fin 0], [Fin 0, Fin 4]]))
   \<and> get_full_covariance_matrix 1
        \<lparr>covariance = ''spherical'', means = Tensor2 2 [[Fin 0, Fin 0], [Fin 0, Fin 0]],
         covars = T1 [Fin 2, Fin 5]\<rparr>
       = Inr (T2 (Tensor2 2 [[Fin 5, Fin 0], [Fin 0, Fin 5]]))
   \<and> get_full_covariance_matrix 1
        \<lparr>covariance = ''diag-shared'', means = Tensor2 2 [[Fin 0, Fin 0], [Fin 0, Fin 0]],
         covars = T1 [Fin 7, Fin 9]\<rparr>
       = Inr (T2 (Tensor2 2 [[Fin 7, Fin 0], [Fin 0, Fin 9]]))"
proof -
  let ?m = "Tensor2 2 [[Fin 0, Fin 0], [Fin 0, Fin 0]]"
  let ?hd = "\<lparr>covariance = ''diag'', means = ?m,
              covars = T2 (Tensor2 2 [[Fin 1, Fin 2], [Fin 3, Fin 4]])\<rparr>"
  let ?hs = "\<lparr>covariance = ''spherical'', means = ?m, covars = T1 [Fin 2, Fin 5]\<rparr>"
  let ?hh = "\<lparr>covariance = ''diag-shared'', means = ?m, covars = T1 [Fin 7, Fin 9]\<rparr>"
  have d: "diag_matrix [Fin 3, Fin 4] = Tensor2 2 [[Fin 3, Fin 0], [Fin 0, Fin 4]]"
    "diag_matrix [Fin 5, Fin 5] = Tensor2 2 [[Fin 5, Fin 0], [Fin 0, Fin 5]]"
    "diag_matrix [Fin 7, Fin 9] = Tensor2 2 [[Fin 7, Fin 0], [Fin 0, Fin 9]]"
    by (simp_all add: diag_matrix_def upt2 zero_fl_def)
  have i0: "\<exists>h0. Gaussian_init 2 3 ''full'' zero_noise = Inr h0 \<and> covariance h0 = ''full''
        \<and> num_components h0 = 2 \<and> num_features h0 = 3 \<and> has_layout 2 3 ''full'' (covars h0)"
    using Gaussian_covariance_layout[of 2 3 "''full''" zero_noise] by simp
  have g1: "get_full_covariance_matrix 1 ?hd = Inr (T2 (diag_matrix [Fin 3, Fin 4]))"
    using Gaussian_covariance_layout[of _ _ _ _ ?hd "Tensor2 2 [[Fin 1, Fin 2], [Fin 3, Fin 4]]" 1]
    by (simp add: nrows_def)
  have g2: "get_full_covariance_matrix 1 ?hs = Inr (T2 (diag_matrix [Fin 5, Fin 5]))"
    using Gaussian_covariance_layout[of _ _ _ _ ?hs _ 1 "[Fin 2, Fin 5]" 5]
    by (simp add: num_features_def numeral_2_eq_2)
  have g3: "get_full_covariance_matrix 1 ?hh = Inr (T2 (diag_matrix [Fin 7, Fin 9]))"
    using Gaussian_covariance_layout[of _ _ _ _ ?hh _ 1 "[Fin 7, Fin 9]"]
    by simp
  show ?thesis
    using i0 g1 g2 g3 by (simp add: d)
qed

section \<open>Properties of evaluation\<close>





text \<open>
  What \<^verbatim>\<open>log_normal\<close> writes into the means it is given is written into the head: with one
  that overwrites the means with zeros, the mean 5 becomes 0.
\<close>

lemma Gaussian_evaluate_writes_through:
  "means (snd (Gaussian_evaluate clobbering_log_normal (Tensor2 1 [[Fin 0]]) True
      \<lparr>covariance = ''diag'', means = Tensor2 1 [[Fin 5]], covars = T2 (Tensor2 1 [[Fin 2]])\<rparr>))
   = Tensor2 1 [[Fin 0]]"
  by (simp add: Gaussian_evaluate_def clobbering_log_normal_def zeros_like_def nrows_def
        num_components_def view2_def zero_fl_def)



section \<open>Properties of the Markov chain estimator\<close>

lemma fold_max_elem:
  "sint (fold (\<lambda>x m. if sint m < sint x then x else m) ys (m0 :: 64 word))
     = Max (insert (sint m0) (sint ` set ys))"
proof (induction ys arbitrary: m0)
  case Nil
  show ?case by simp
next
  case (Cons y ys)
  show ?case
  proof (cases "sint m0 < sint y")
    case True
    then have "max (sint y) (sint m0) = sint y" by simp
    then have "Max (insert (sint m0) (sint ` set (y # ys))) = Max (insert (sint y) (sint ` set ys))"
      by (cases "ys = []") (simp_all add: max.assoc[symmetric] max.commute)
    then show ?thesis using True by (simp add: Cons.IH)
  next
    case False
    then have "max (sint m0) (sint y) = sint m0" by simp
    then have "Max (insert (sint m0) (sint ` set (y # ys))) = Max (insert (sint m0) (sint ` set ys))"
      by (cases "ys = []") (simp_all add: max.assoc[symmetric])
    then show ?thesis using False by (simp add: Cons.IH)
  qed
qed

lemma sint_max_elem:
  assumes "xs \<noteq> []"
  shows "sint (max_elem xs) = Max (sint ` set xs)"
proof -
  obtain x ys where xs: "xs = x # ys"
    using assms by (cases xs) auto
  show ?thesis
    by (simp add: max_elem_def xs fold_max_elem)
qed

lemma sint_succ:
  assumes "sint (w :: 64 word) < 2 ^ 63 - 1"
  shows "sint (w + 1) = sint w + 1"
proof -
  have lo: "- (2 ^ 63) \<le> sint w"
    using sint_ge[of w] by simp
  have "sint (w + 1) = signed_take_bit 63 (sint w + 1)"
    by (simp add: sint_word_ariths)
  also have "\<dots> = sint w + 1"
    using lo assms by (intro signed_take_bit_int_eq_self) simp_all
  finally show ?thesis .
qed

lemma collect_all_Inr:
  "\<forall>e\<in>set es. g e = Inr (f e) \<Longrightarrow> collect (map g es) = Inr (map f es)"
  by (induction es) simp_all

lemma py_max_all_Inr:
  assumes "es \<noteq> []" and "\<forall>e\<in>set es. g e = Inr (f e)"
  shows "py_max (map g es) = Inr (Max (f ` set es))"
proof -
  obtain e rest where es: "es = e # rest"
    using assms(1) by (cases es) auto
  have "collect (map g es) = Inr (f e # map f rest)"
    using collect_all_Inr[OF assms(2)] by (simp add: es)
  then have "py_max (map g es) = Inr (fold max (map f rest) (f e))"
    by (simp add: py_max_def)
  also have "fold max (map f rest) (f e) = Max (set (f e # map f rest))"
    by (rule Max.set_eq_fold[symmetric])
  finally show ?thesis
    by (simp add: es)
qed

text \<open>
  C8 as stated fails. For the \<^verbatim>\<open>int64\<close> array holding the single element \<open>2^63 - 1\<close>, the
  maximum plus one is \<open>2^63\<close>, and \<^verbatim>\<open>_get_num_states\<close> returns \<open>- 2^63\<close>: NumPy's addition on
  an \<^verbatim>\<open>int64\<close> scalar wraps around.
\<close>

theorem get_num_states_int64_max:
  "get_num_states (NdArray Int64 [0x7FFFFFFFFFFFFFFF]) = Inr (- 9223372036854775808)
   \<and> fit_num_states None (NdArray Int64 [0x7FFFFFFFFFFFFFFF]) = Inr (- 9223372036854775808)
   \<and> sint (0x7FFFFFFFFFFFFFFF :: 64 word) + 1 = 9223372036854775808"
  by (simp add: fit_num_states_def max_elem_def)

text \<open>
  C8, amended. When \<^verbatim>\<open>num_states\<close> is not supplied, \<^verbatim>\<open>fit\<close> takes the number of states from
  \<^verbatim>\<open>_get_num_states\<close>. For every non-empty \<^verbatim>\<open>torch.long\<close> tensor it is the maximum element
  plus one; for every non-empty \<^verbatim>\<open>int64\<close> array whose maximum is below \<open>2^63 - 1\<close> it is the
  maximum element plus one; for every non-empty dataset whose entries each give a value, it
  is the maximum of those values.
\<close>

theorem get_num_states_infers:
  "(xs \<noteq> [] \<longrightarrow>
      get_num_states (TorchTensor Int64 xs) = Inr (Max (sint ` set xs) + 1))
   \<and> (xs \<noteq> [] \<and> Max (sint ` set xs) < 2 ^ 63 - 1 \<longrightarrow>
      get_num_states (NdArray Int64 xs) = Inr (Max (sint ` set xs) + 1))
   \<and> (es \<noteq> [] \<and> (\<forall>e\<in>set es. get_num_states e = Inr (f e)) \<longrightarrow>
      get_num_states (Dataset es) = Inr (Max (f ` set es)))
   \<and> fit_num_states None d = get_num_states d"
proof (intro conjI impI)
  assume "xs \<noteq> []"
  then show "get_num_states (TorchTensor Int64 xs) = Inr (Max (sint ` set xs) + 1)"
    by (simp add: sint_max_elem)
next
  assume a: "xs \<noteq> [] \<and> Max (sint ` set xs) < 2 ^ 63 - 1"
  then have "sint (max_elem xs) < 2 ^ 63 - 1"
    by (simp add: sint_max_elem)
  then show "get_num_states (NdArray Int64 xs) = Inr (Max (sint ` set xs) + 1)"
    using a by (simp add: sint_succ sint_max_elem)
next
  assume a: "es \<noteq> [] \<and> (\<forall>e\<in>set es. get_num_states e = Inr (f e))"
  then show "get_num_states (Dataset es) = Inr (Max (f ` set es))"
    by (simp add: py_max_all_Inr)
next
  show "fit_num_states None d = get_num_states d"
    by (simp add: fit_num_states_def)
qed

text \<open>
  C8, amended, at concrete inputs: the elements \<open>[0, 2, 1]\<close> give 3 states, and a dataset of
  an array \<open>[0, 1]\<close> and a tensor \<open>[4]\<close> gives 5.
\<close>

theorem get_num_states_infers_witness:
  "get_num_states (TorchTensor Int64 [0, 2, 1]) = Inr 3
   \<and> get_num_states (NdArray Int64 [0, 2, 1]) = Inr 3
   \<and> get_num_states (Dataset [NdArray Int64 [0, 1], TorchTensor Int64 [4]]) = Inr 5
   \<and> fit_num_states None (TorchTensor Int64 [0, 2, 1]) = get_num_states (TorchTensor Int64 [0, 2, 1])"
proof -
  let ?f = "\<lambda>e. case get_num_states e of Inr n \<Rightarrow> n | Inl _ \<Rightarrow> 0"
  note th = get_num_states_infers[of "[0, 2, 1]" "[NdArray Int64 [0, 1], TorchTensor Int64 [4]]" ?f
              "TorchTensor Int64 [0, 2, 1]"]
  show ?thesis
    using th by (simp add: max_elem_def)
qed

end
